theory Spec2Isabelle
  imports Main "HOL-Library.Sublist" "HOL-Library.Word"
begin

section \<open>The Go library functions that mocker.go calls\<close>

text \<open>
  Go strings are byte strings; \<open>string\<close> (a list of 8-bit characters) is the same
  data. The functions below follow the documented behaviour of the standard library
  on a Unix host.
\<close>

subsection \<open>Package strings\<close>

text \<open>\<open>strings.Index(s, substr)\<close>: the index of the first occurrence of \<open>substr\<close> in
  \<open>s\<close>; Go's \<open>-1\<close> is \<open>None\<close>.\<close>

fun strings_Index :: "string \<Rightarrow> string \<Rightarrow> nat option" where
  "strings_Index [] substr = (if substr = [] then Some 0 else None)"
| "strings_Index (c # s) substr =
     (if prefix substr (c # s) then Some 0 else map_option Suc (strings_Index s substr))"

definition strings_HasPrefix :: "string \<Rightarrow> string \<Rightarrow> bool" where
  "strings_HasPrefix s pre = prefix pre s"

fun strings_Join :: "string list \<Rightarrow> string \<Rightarrow> string" where
  "strings_Join [] sep = []"
| "strings_Join [e] sep = e"
| "strings_Join (e # es) sep = e @ sep @ strings_Join es sep"

fun strings_Split :: "string \<Rightarrow> char \<Rightarrow> string list" where
  "strings_Split [] sep = [[]]"
| "strings_Split (c # s) sep =
     (if c = sep then [] # strings_Split s sep
      else (c # hd (strings_Split s sep)) # tl (strings_Split s sep))"

subsection \<open>Package path\<close>

text \<open>\<open>path.Clean\<close>, by its documented rules: multiple slashes become one, \<open>.\<close>
  elements disappear, an inner \<open>..\<close> removes the element before it, \<open>..\<close> at the
  root disappears, and the empty result is \<open>.\<close>. \<open>out\<close> is the list of elements kept
  so far.\<close>

fun clean_elems :: "bool \<Rightarrow> string list \<Rightarrow> string list \<Rightarrow> string list" where
  "clean_elems rooted out [] = out"
| "clean_elems rooted out (e # es) =
     (if e = [] \<or> e = ''.'' then clean_elems rooted out es
      else if e = ''..'' then
        (if out \<noteq> [] \<and> last out \<noteq> ''..'' then clean_elems rooted (butlast out) es
         else if \<not> rooted then clean_elems rooted (out @ [''..'']) es
         else clean_elems rooted out es)
      else clean_elems rooted (out @ [e]) es)"

definition path_Clean :: "string \<Rightarrow> string" where
  "path_Clean p =
     (if p = [] then ''.''
      else let rooted = (hd p = CHR ''/'');
               out = clean_elems rooted [] (strings_Split p (CHR ''/''));
               s = (if rooted then ''/'' else []) @ strings_Join out ''/''
           in if s = [] then ''.'' else s)"

text \<open>\<open>path.Join\<close>: empty leading elements are ignored, the rest is joined with
  slashes and cleaned; all elements empty gives the empty string.\<close>

definition path_Join :: "string list \<Rightarrow> string" where
  "path_Join elem =
     (case dropWhile (\<lambda>e. e = []) elem of
        [] \<Rightarrow> []
      | es \<Rightarrow> path_Clean (strings_Join es ''/''))"

subsection \<open>Errors\<close>

datatype errno = ENOENT | ENOTDIR | EISDIR | EINVAL | EACCES | ENOSPC | EROFS

text \<open>The error values the package can return. \<open>NotTemporary d\<close> is
  \<open>errors.New("Remove can only remove temporary directories, tryied to remove " + d)\<close>
  (the spec's InvalidTarget), \<open>NotInPath d\<close> is \<open>fmt.Errorf("%q is not in $PATH", d)\<close>
  (the spec's NotInSearchPath); the others are the errors of package os (operation,
  path, errno) and of text/template.\<close>

datatype go_error =
    NotTemporary string
  | NotInPath string
  | PathError string string errno
  | SyscallError string errno
  | TemplateError

text \<open>\<open>os.IsNotExist\<close> on an error value (\<open>None\<close> is Go's \<open>nil\<close>): on Unix only
  \<open>ENOENT\<close> counts as "does not exist".\<close>

fun os_IsNotExist :: "go_error option \<Rightarrow> bool" where
  "os_IsNotExist (Some (PathError opn p e)) = (e = ENOENT)"
| "os_IsNotExist (Some (SyscallError opn e)) = (e = ENOENT)"
| "os_IsNotExist err = False"

subsection \<open>The file system\<close>

text \<open>A file system maps a path to a directory or to a regular file with its content.
  The root is always a directory. Permissions, symbolic links and the working directory
  are not modelled: a path is looked up as it is written.\<close>

datatype node = Dir | File string

type_synonym filesystem = "string \<rightharpoonup> node"

text \<open>The proper ancestors of a path, outermost first: \<open>/tmp/d/.ran\<close> has \<open>/tmp\<close> and
  \<open>/tmp/d\<close>.\<close>

fun ancestors_from :: "string \<Rightarrow> string \<Rightarrow> string list" where
  "ancestors_from seen [] = []"
| "ancestors_from seen (c # cs) =
     (if c = CHR ''/'' \<and> seen \<noteq> [] then seen # ancestors_from (seen @ [c]) cs
      else ancestors_from (seen @ [c]) cs)"

definition ancestors :: "string \<Rightarrow> string list" where
  "ancestors p = ancestors_from [] p"

text \<open>Path resolution: the first ancestor that is not a directory decides the error
  (\<open>ENOENT\<close> when it is missing, \<open>ENOTDIR\<close> when it is a regular file).\<close>

definition resolve_parent :: "filesystem \<Rightarrow> string \<Rightarrow> errno option" where
  "resolve_parent fs p =
     (case find (\<lambda>q. fs q \<noteq> Some Dir) (ancestors p) of
        None \<Rightarrow> None
      | Some q \<Rightarrow> (case fs q of None \<Rightarrow> Some ENOENT | Some n \<Rightarrow> Some ENOTDIR))"

text \<open>\<open>os.Stat\<close>: the node, or the error.\<close>

definition os_Stat :: "filesystem \<Rightarrow> string \<Rightarrow> go_error + node" where
  "os_Stat fs p =
     (case resolve_parent fs p of
        Some e \<Rightarrow> Inl (PathError ''stat'' p e)
      | None \<Rightarrow> (case fs p of None \<Rightarrow> Inl (PathError ''stat'' p ENOENT) | Some n \<Rightarrow> Inr n))"

definition err_of :: "go_error + 'a \<Rightarrow> go_error option" where
  "err_of r = (case r of Inl e \<Rightarrow> Some e | Inr v \<Rightarrow> None)"

text \<open>What the host decides and the program cannot see in advance: failures of file
  system calls for reasons outside the model (permissions, a full or read-only disk),
  the bytes that \<open>rand.Read\<close> delivers, and the order in which a \<open>range\<close> over a Go map
  visits the keys (which the language leaves unspecified).\<close>

record host =
  mkdir_fault :: "errno option"
  open_fault :: "errno option"
  parse_fault :: bool
  write_fault :: "(errno \<times> nat) option"
  removeall_fault :: "(errno \<times> string set) option"
  rand_bufs :: "8 word list list"
  range_order :: "string list"

fun is_file :: "node option \<Rightarrow> bool" where
  "is_file (Some (File b)) = True"
| "is_file n = False"

text \<open>\<open>os.MkdirAll(p, perm)\<close>: \<open>p\<close> and every missing ancestor become directories; it
  fails when \<open>p\<close> or an ancestor is a regular file, or when the host refuses.\<close>

definition os_MkdirAll :: "host \<Rightarrow> filesystem \<Rightarrow> string \<Rightarrow> go_error + filesystem" where
  "os_MkdirAll h fs p =
     (if list_ex (\<lambda>q. is_file (fs q)) (ancestors p @ [p])
        then Inl (PathError ''mkdir'' p ENOTDIR)
      else if fs p = Some Dir then Inr fs
      else (case mkdir_fault h of
              Some e \<Rightarrow> Inl (PathError ''mkdir'' p e)
            | None \<Rightarrow> Inr (\<lambda>q. if List.member (ancestors p @ [p]) q then Some Dir else fs q)))"

text \<open>\<open>os.OpenFile(p, O_WRONLY|O_CREAT|O_TRUNC, perm)\<close>: \<open>p\<close> becomes an empty regular
  file; it fails when an ancestor is not a directory, when \<open>p\<close> is a directory, or when
  the host refuses.\<close>

definition os_OpenFile :: "host \<Rightarrow> filesystem \<Rightarrow> string \<Rightarrow> go_error + filesystem" where
  "os_OpenFile h fs p =
     (case resolve_parent fs p of
        Some e \<Rightarrow> Inl (PathError ''open'' p e)
      | None \<Rightarrow>
          (if fs p = Some Dir then Inl (PathError ''open'' p EISDIR)
           else (case open_fault h of
                   Some e \<Rightarrow> Inl (PathError ''open'' p e)
                 | None \<Rightarrow> Inr (fs(p \<mapsto> File [])))))"

text \<open>\<open>os.RemoveAll(p)\<close>: \<open>p\<close> and everything beneath it disappear; a missing \<open>p\<close> is
  not an error. When the host refuses, the paths it names survive and the call
  reports the error.\<close>

definition beneath :: "string \<Rightarrow> string \<Rightarrow> bool" where
  "beneath p q = (q = p \<or> prefix (p @ ''/'') q)"

definition os_RemoveAll :: "host \<Rightarrow> filesystem \<Rightarrow> string \<Rightarrow> go_error option \<times> filesystem" where
  "os_RemoveAll h fs p =
     (case removeall_fault h of
        None \<Rightarrow> (None, \<lambda>q. if beneath p q then None else fs q)
      | Some (e, kept) \<Rightarrow>
          (Some (PathError ''unlinkat'' p e),
           \<lambda>q. if beneath p q \<and> q \<notin> kept then None else fs q))"

section \<open>The process state\<close>

text \<open>\<open>running\<close> is the package variable of that name (a Go map from command name to
  directory), \<open>env\<close> the process environment, \<open>fs\<close> the file system.\<close>

record world =
  running :: "string \<rightharpoonup> string"
  env :: "string \<rightharpoonup> string"
  fs :: filesystem

definition os_Getenv :: "world \<Rightarrow> string \<Rightarrow> string" where
  "os_Getenv w key = (case env w key of None \<Rightarrow> [] | Some v \<Rightarrow> v)"

text \<open>\<open>os.Setenv\<close> on Unix fails with \<open>EINVAL\<close> exactly when the key is empty or holds
  \<open>=\<close> or a NUL byte, or the value holds a NUL byte.\<close>

definition os_Setenv :: "string \<Rightarrow> string \<Rightarrow> world \<Rightarrow> go_error + world" where
  "os_Setenv key v w =
     (if key = [] \<or> CHR ''='' \<in> set key \<or> CHR 0x00 \<in> set key \<or> CHR 0x00 \<in> set v
        then Inl (SyscallError ''setenv'' EINVAL)
      else Inr (w\<lparr>env := (env w)(key \<mapsto> v)\<rparr>))"

text \<open>\<open>os.TempDir\<close> on Unix: \<open>$TMPDIR\<close>, or \<open>/tmp\<close> when that is empty.\<close>

definition os_TempDir :: "world \<Rightarrow> string" where
  "os_TempDir w = (let d = os_Getenv w ''TMPDIR'' in if d = [] then ''/tmp'' else d)"

section \<open>Remove\<close>

text \<open>The result of a call that returns an \<open>error\<close>: \<open>Ok\<close> for Go's \<open>nil\<close>, an error, or a run-time
  panic (a slice expression out of range).\<close>

datatype result = Ok | Err go_error | Panic

text \<open>Lines 189 to 202, the body of \<open>Remove\<close>. The slice expression
  \<open>path[index+len(tempdir)+1:]\<close> panics when its lower bound exceeds \<open>len(path)\<close>.\<close>

definition Remove_body :: "host \<Rightarrow> string \<Rightarrow> world \<Rightarrow> result \<times> world" where
  "Remove_body h tempdir w =
     (if \<not> strings_HasPrefix tempdir (os_TempDir w) then (Err (NotTemporary tempdir), w)
      else let path = os_Getenv w ''PATH'' in
        (case strings_Index path tempdir of
           None \<Rightarrow> (Err (NotInPath tempdir), w)
         | Some index \<Rightarrow>
             (if length path < index + length tempdir + 1 then (Panic, w)
              else let path' = take index path @ drop (index + length tempdir + 1) path in
                (case os_Setenv ''PATH'' path' w of
                   Inl e \<Rightarrow> (Err e, w)
                 | Inr w1 \<Rightarrow>
                     (case os_RemoveAll h (fs w1) tempdir of
                        (None, fs') \<Rightarrow> (Ok, w1\<lparr>fs := fs'\<rparr>)
                      | (Some e, fs') \<Rightarrow> (Err e, w1\<lparr>fs := fs'\<rparr>))))))"

text \<open>Lines 178 to 188, the deferred function: \<open>k\<close> starts as the empty string, the
  loop over \<open>running\<close> sets it to each key whose value is \<open>tempdir\<close> (the last one
  visited stays), and \<open>delete(running, k)\<close> removes that key.\<close>

definition Remove_deferred :: "string list \<Rightarrow> string \<Rightarrow> world \<Rightarrow> world" where
  "Remove_deferred order tempdir w =
     (let k = fold (\<lambda>key k. if running w key = Some tempdir then key else k) order []
      in w\<lparr>running := (running w)(k := None)\<rparr>)"

text \<open>\<open>Remove\<close>: the body, then the deferred function, which runs on every way out of
  the body, a panic included.\<close>

definition Remove :: "host \<Rightarrow> string \<Rightarrow> world \<Rightarrow> result \<times> world" where
  "Remove h tempdir w =
     (case Remove_body h tempdir w of
        (r, w1) \<Rightarrow> (r, Remove_deferred (range_order h) tempdir w1))"

section \<open>add\<close>

subsection \<open>The generated script\<close>

text \<open>The package variable \<open>source\<close>, lines 18 to 41 (the line of the \<open>for\<close> loop's
  body starts with a tab).\<close>

definition source :: string where
  \<open>source =
     ''#!/bin/bash -e\<newline>'' @
     ''\<newline>'' @
     ''echo=$(which echo)\<newline>'' @
     ''output=$(cat <<EOF\<newline>'' @
     ''{{.output}}\<newline>'' @
     ''EOF\<newline>'' @
     '')\<newline>'' @
     ''erroutput=$(cat <<EOF\<newline>'' @
     ''{{.erroutput}}\<newline>'' @
     ''EOF\<newline>'' @
     '')\<newline>'' @
     ''dirname=$(dirname ${0})\<newline>'' @
     ''\<newline>'' @
     ''$echo -n "${output}" | tee -a ${dirname}/.out\<newline>'' @
     ''$echo -n "${erroutput}" >&2 | tee -a ${dirname}/.err\<newline>'' @
     ''\<newline>'' @
     ''for i in "$@"\<newline>'' @
     ''do\<newline>'' @
     [CHR 0x09] @ ''$echo -- "$i" | sed -e 's/-- //' >> ${dirname}/.params\<newline>'' @
     ''done\<newline>'' @
     ''touch ${dirname}/.ran\<newline>'' @
     ''env >> ${dirname}/.envs\<newline>'' @
     ''exit {{.status}}\<newline>''\<close>

text \<open>\<open>template.Parse\<close>: the parsed template is kept as its text. The branch of line 82
  is kept; whether parsing fails is the host's \<open>parse_fault\<close>.\<close>

definition template_Parse :: "host \<Rightarrow> string \<Rightarrow> go_error + string" where
  "template_Parse h text = (if parse_fault h then Inl TemplateError else Inr text)"

text \<open>Rendering: each action \<open>{{.key}}\<close> whose key is in \<open>param\<close> is replaced by the
  value, in one pass over the text.\<close>

function template_render :: "(string \<times> string) list \<Rightarrow> string \<Rightarrow> string" where
  "template_render param [] = []"
| "template_render param (c # cs) =
     (case find (\<lambda>kv. prefix (''{{.'' @ fst kv @ ''}}'') (c # cs)) param of
        Some kv \<Rightarrow> snd kv @ template_render param (drop (length (fst kv) + 5) (c # cs))
      | None \<Rightarrow> c # template_render param cs)"
  by pat_completeness auto
termination
  by (relation "measure (\<lambda>(param, text). length text)") auto

text \<open>An \<open>int\<close> printed by the template, in decimal.\<close>

function show_nat :: "nat \<Rightarrow> string" where
  "show_nat n =
     (if n < 10 then [''0123456789'' ! n]
      else show_nat (n div 10) @ [''0123456789'' ! (n mod 10)])"
  by pat_completeness auto
termination
  by (relation "measure (\<lambda>n. n)") auto

declare show_nat.simps [simp del]

definition show_int :: "int \<Rightarrow> string" where
  "show_int i = (if i < 0 then ''-'' @ show_nat (nat (- i)) else show_nat (nat i))"

text \<open>\<open>t.Execute(f, param)\<close> writes the rendered text to the open file \<open>p\<close>. When the
  host makes a write fail after \<open>n\<close> bytes, the file holds those bytes and the call
  reports the error.\<close>

definition template_Execute ::
    "host \<Rightarrow> string \<Rightarrow> (string \<times> string) list \<Rightarrow> filesystem \<Rightarrow> string \<Rightarrow>
     go_error option \<times> filesystem" where
  "template_Execute h t param files p =
     (case write_fault h of
        None \<Rightarrow> (None, files(p \<mapsto> File (template_render param t)))
      | Some (e, n) \<Rightarrow>
          (Some (PathError ''write'' p e),
           files(p \<mapsto> File (take n (template_render param t)))))"

subsection \<open>The directory name\<close>

text \<open>\<open>fmt.Sprintf("commandmocker-%x", buf)\<close> for \<open>buf [8]byte\<close>: two lower-case
  hexadecimal digits for each byte.\<close>

definition hex_digit :: "nat \<Rightarrow> char" where
  "hex_digit n = ''0123456789abcdef'' ! n"

definition hex_byte :: "8 word \<Rightarrow> string" where
  "hex_byte b = [hex_digit (unat b div 16), hex_digit (unat b mod 16)]"

definition sprintf_x :: "8 word list \<Rightarrow> string" where
  "sprintf_x buf = concat (map hex_byte buf)"

text \<open>Lines 61 to 69: draw a name until \<open>os.Stat\<close> says that it does not exist. The
  argument lists what the successive calls of \<open>rand.Read\<close> leave in \<open>buf\<close>; \<open>None\<close>
  means that the loop is still running when the list is used up.\<close>

fun add_tempdir :: "world \<Rightarrow> 8 word list list \<Rightarrow> string option" where
  "add_tempdir w [] = None"
| "add_tempdir w (buf # bufs) =
     (let tempdir = path_Join [os_TempDir w, ''commandmocker-'' @ sprintf_x buf] in
      if os_IsNotExist (err_of (os_Stat (fs w) tempdir)) then Some tempdir
      else add_tempdir w bufs)"

subsection \<open>The three parts of add\<close>

text \<open>One turn of the loop of lines 51 to 59: \<open>True\<close> when the loop is left (the name
  is not in \<open>running\<close>), \<open>False\<close> when the caller sleeps and tries again.\<close>

definition add_poll :: "world \<Rightarrow> string \<Rightarrow> bool" where
  "add_poll w name = (running w name = None)"

text \<open>The loop for a caller that runs alone: nobody changes \<open>running\<close> between two
  turns. Not returning is the value \<open>None\<close>.\<close>

partial_function (option) add_wait :: "world \<Rightarrow> string \<Rightarrow> unit option" where
  "add_wait w name = (if add_poll w name then Some () else add_wait w name)"

text \<open>Lines 60 to 71, under the write lock: choose the directory and record
  \<open>running[name] = tempdir\<close>.\<close>

definition add_record :: "host \<Rightarrow> string \<Rightarrow> world \<Rightarrow> (string \<times> world) option" where
  "add_record h name w =
     (case add_tempdir w (rand_bufs h) of
        None \<Rightarrow> None
      | Some tempdir \<Rightarrow> Some (tempdir, w\<lparr>running := (running w)(name \<mapsto> tempdir)\<rparr>))"

text \<open>Lines 72 to 99. Go's result \<open>("", err)\<close> is \<open>Inl err\<close>, \<open>(tempdir, nil)\<close> is
  \<open>Inr tempdir\<close>. The error of \<open>os.Setenv\<close> on line 97 is assigned and never read.\<close>

definition add_finish ::
    "host \<Rightarrow> string \<Rightarrow> string \<Rightarrow> string \<Rightarrow> int \<Rightarrow> string \<Rightarrow> world \<Rightarrow>
     (go_error + string) \<times> world" where
  "add_finish h name stdout stderr status tempdir w =
     (case os_MkdirAll h (fs w) tempdir of
        Inl e \<Rightarrow> (Inl e, w)
      | Inr fs1 \<Rightarrow>
          (case os_OpenFile h fs1 (path_Join [tempdir, name]) of
             Inl e \<Rightarrow> (Inl e, w\<lparr>fs := fs1\<rparr>)
           | Inr fs2 \<Rightarrow>
               (case template_Parse h source of
                  Inl e \<Rightarrow> (Inl e, w\<lparr>fs := fs2\<rparr>)
                | Inr t \<Rightarrow>
                    (case template_Execute h t
                            [(''output'', stdout), (''erroutput'', stderr),
                             (''status'', show_int status)]
                            fs2 (path_Join [tempdir, name]) of
                       (Some e, fs3) \<Rightarrow> (Inl e, w\<lparr>fs := fs3\<rparr>)
                     | (None, fs3) \<Rightarrow>
                         (let w3 = w\<lparr>fs := fs3\<rparr>;
                              path = os_Getenv w3 ''PATH'';
                              path' = tempdir @ '':'' @ path
                          in case os_Setenv ''PATH'' path' w3 of
                               Inl e \<Rightarrow> (Inr tempdir, w3)
                             | Inr w4 \<Rightarrow> (Inr tempdir, w4))))))"

text \<open>\<open>add\<close> for a caller that runs alone. \<open>None\<close>: the call does not return.\<close>

definition add ::
    "host \<Rightarrow> string \<Rightarrow> string \<Rightarrow> string \<Rightarrow> int \<Rightarrow> world \<Rightarrow>
     ((go_error + string) \<times> world) option" where
  "add h name stdout stderr status w =
     (case add_wait w name of
        None \<Rightarrow> None
      | Some u \<Rightarrow>
          (case add_record h name w of
             None \<Rightarrow> None
           | Some (tempdir, w1) \<Rightarrow> Some (add_finish h name stdout stderr status tempdir w1)))"

definition Add :: "host \<Rightarrow> string \<Rightarrow> string \<Rightarrow> world \<Rightarrow> ((go_error + string) \<times> world) option" where
  "Add h name output w = add h name output [] 0 w"

definition AddStderr ::
    "host \<Rightarrow> string \<Rightarrow> string \<Rightarrow> string \<Rightarrow> world \<Rightarrow> ((go_error + string) \<times> world) option" where
  "AddStderr h name stdout stderr w = add h name stdout stderr 0 w"

definition Error ::
    "host \<Rightarrow> string \<Rightarrow> string \<Rightarrow> int \<Rightarrow> world \<Rightarrow> ((go_error + string) \<times> world) option" where
  "Error h name output status w = add h name [] output status w"

section \<open>The inspectors\<close>

text \<open>\<open>Ran\<close>, lines 128 to 132.\<close>

definition Ran :: "world \<Rightarrow> string \<Rightarrow> bool" where
  "Ran w tempdir =
     (let p = path_Join [tempdir, ''.ran''];
          err = err_of (os_Stat (fs w) p)
      in err = None \<or> \<not> os_IsNotExist err)"

text \<open>\<open>ioutil.ReadFile\<close>: the content of a regular file.\<close>

definition ioutil_ReadFile :: "filesystem \<Rightarrow> string \<Rightarrow> go_error + string" where
  "ioutil_ReadFile files p =
     (case os_Stat files p of
        Inl e \<Rightarrow> Inl e
      | Inr Dir \<Rightarrow> Inl (PathError ''read'' p EISDIR)
      | Inr (File b) \<Rightarrow> Inr b)"

definition Output :: "world \<Rightarrow> string \<Rightarrow> string" where
  "Output w tempdir =
     (case ioutil_ReadFile (fs w) (path_Join [tempdir, ''.out'']) of
        Inl e \<Rightarrow> []
      | Inr b \<Rightarrow> b)"

definition Envs :: "world \<Rightarrow> string \<Rightarrow> string" where
  "Envs w tempdir =
     (case ioutil_ReadFile (fs w) (path_Join [tempdir, ''.envs'']) of
        Inl e \<Rightarrow> []
      | Inr b \<Rightarrow> b)"

text \<open>\<open>bufio.Scanner\<close> with the default split function \<open>ScanLines\<close>: one token for each
  line, without the newline and without one carriage return before it. A line of
  \<open>MaxScanTokenSize\<close> bytes or more stops the scan (\<open>ErrTooLong\<close>).\<close>

definition MaxScanTokenSize :: nat where
  "MaxScanTokenSize = 64 * 1024"

definition dropCR :: "string \<Rightarrow> string" where
  "dropCR data = (if data \<noteq> [] \<and> last data = CHR 0x0D then butlast data else data)"

function bufio_ScanLines :: "string \<Rightarrow> string list" where
  "bufio_ScanLines [] = []"
| "bufio_ScanLines (c # cs) =
     (let line = takeWhile (\<lambda>x. x \<noteq> CHR 0x0A) (c # cs) in
      if MaxScanTokenSize \<le> length line then []
      else dropCR line # bufio_ScanLines (drop (length line + 1) (c # cs)))"
  by pat_completeness auto
termination
  by (relation "measure length") auto

text \<open>\<open>Parameters\<close>, lines 158 to 171. Go's \<open>nil\<close> slice is the empty list. Opening a
  directory succeeds and reading it fails, which ends the scan at once.\<close>

definition Parameters :: "world \<Rightarrow> string \<Rightarrow> string list" where
  "Parameters w tempdir =
     (case os_Stat (fs w) (path_Join [tempdir, ''.params'']) of
        Inl e \<Rightarrow> []
      | Inr Dir \<Rightarrow> []
      | Inr (File b) \<Rightarrow> bufio_ScanLines b)"

section \<open>A run of the generated script\<close>

text \<open>What one run of the script does to the parameters log and to the ran marker
  (lines 34 to 38 of \<open>source\<close>); the other three logs are left out. \<open>echo\<close> is the
  external program found by \<open>which echo\<close>: it does not know \<open>--\<close> as an option and
  prints its arguments separated by blanks, then a newline. \<open>sed -e 's/-- //'\<close> removes
  the first \<open>-- \<close> of each line of its input.\<close>

definition sed_s :: "string \<Rightarrow> string" where
  "sed_s line =
     (case strings_Index line ''-- '' of
        None \<Rightarrow> line
      | Some i \<Rightarrow> take i line @ drop (i + 3) line)"

definition text_lines :: "string \<Rightarrow> string list" where
  "text_lines text =
     (let ls = strings_Split text (CHR 0x0A) in if last ls = [] then butlast ls else ls)"

text \<open>The bytes that the body of the loop appends for the argument \<open>i\<close>.\<close>

definition script_param :: "string \<Rightarrow> string" where
  "script_param i =
     concat (map (\<lambda>l. sed_s l @ [CHR 0x0A]) (text_lines (''-- '' @ i @ [CHR 0x0A])))"

definition append_file :: "filesystem \<Rightarrow> string \<Rightarrow> string \<Rightarrow> filesystem" where
  "append_file files p data =
     files(p \<mapsto> File ((case files p of Some (File b) \<Rightarrow> b | _ \<Rightarrow> []) @ data))"

text \<open>The loop over \<open>"$@"\<close>. A redirection onto a directory fails, and \<open>bash -e\<close> then
  ends the script: \<open>None\<close>.\<close>

fun script_loop :: "string \<Rightarrow> string list \<Rightarrow> filesystem \<Rightarrow> filesystem option" where
  "script_loop p [] files = Some files"
| "script_loop p (i # args) files =
     (if files p = Some Dir then None
      else script_loop p args (append_file files p (script_param i)))"

definition touch :: "filesystem \<Rightarrow> string \<Rightarrow> filesystem" where
  "touch files p = (if files p = None then files(p \<mapsto> File []) else files)"

text \<open>\<open>dirname\<close> is the directory of the script, an existing directory.\<close>

definition run_script :: "string \<Rightarrow> string list \<Rightarrow> world \<Rightarrow> world" where
  "run_script dirname args w =
     (if fs w dirname \<noteq> Some Dir then w
      else case script_loop (dirname @ ''/.params'') args (fs w) of
        None \<Rightarrow> w
      | Some files \<Rightarrow> w\<lparr>fs := touch files (dirname @ ''/.ran'')\<rparr>)"

section \<open>Several callers\<close>

text \<open>Goroutines that call \<open>add\<close> and \<open>Remove\<close> share \<open>running\<close>, the environment and
  the file system. A caller of \<open>add\<close> is in the loop of lines 51 to 59 (\<open>Add_wait\<close>), or
  has left it and not yet taken the write lock of line 60 (\<open>Add_lock\<close>), or has released
  that lock on line 71 with its directory recorded (\<open>Add_rest\<close>), or has returned. One
  step of a caller is one of the parts of \<open>add\<close> above, or a whole call of \<open>Remove\<close>;
  the two mutexes make the first two parts atomic, and a caller may always run the other
  steps without being interrupted, so every run of this model is a run of the program.\<close>

datatype thread =
    Add_wait string string string int
  | Add_lock string string string int
  | Add_rest string string string int string
  | Add_returned string "go_error + string"
  | Remove_called string
  | Remove_returned result

definition thread_step :: "host \<Rightarrow> thread \<Rightarrow> world \<Rightarrow> thread \<times> world" where
  "thread_step h t w =
     (case t of
        Add_wait name stdout stderr status \<Rightarrow>
          (if add_poll w name then (Add_lock name stdout stderr status, w) else (t, w))
      | Add_lock name stdout stderr status \<Rightarrow>
          (case add_record h name w of
             None \<Rightarrow> (t, w)
           | Some (tempdir, w1) \<Rightarrow> (Add_rest name stdout stderr status tempdir, w1))
      | Add_rest name stdout stderr status tempdir \<Rightarrow>
          (case add_finish h name stdout stderr status tempdir w of
             (r, w1) \<Rightarrow> (Add_returned name r, w1))
      | Add_returned name r \<Rightarrow> (t, w)
      | Remove_called tempdir \<Rightarrow>
          (case Remove h tempdir w of (r, w1) \<Rightarrow> (Remove_returned r, w1))
      | Remove_returned r \<Rightarrow> (t, w))"

text \<open>The callers, each with what the host decides for it, and the shared state. A
  schedule names the caller that takes the next step.\<close>

type_synonym system = "(host \<times> thread) list \<times> world"

definition sched_step :: "nat \<Rightarrow> system \<Rightarrow> system" where
  "sched_step i sys =
     (case sys of (ts, w) \<Rightarrow>
        if i < length ts
        then (case thread_step (fst (ts ! i)) (snd (ts ! i)) w of
                (t, w1) \<Rightarrow> (ts[i := (fst (ts ! i), t)], w1))
        else (ts, w))"

definition run_schedule :: "nat list \<Rightarrow> system \<Rightarrow> system" where
  "run_schedule schedule sys = fold sched_step schedule sys"

section \<open>Example states\<close>

text \<open>A host on which nothing fails. \<open>rand.Read\<close> delivers the bytes given, and a
  \<open>range\<close> over \<open>running\<close> visits the one key \<open>ssh\<close>.\<close>

definition calm_host :: "8 word list list \<Rightarrow> host" where
  "calm_host bufs =
     \<lparr>mkdir_fault = None, open_fault = None, parse_fault = False, write_fault = None,
      removeall_fault = None, rand_bufs = bufs, range_order = [''ssh'']\<rparr>"

text \<open>A state in which \<open>ssh\<close> is registered with the directory \<open>/tmp/a\<close>, \<open>$TMPDIR\<close> is
  not set (the temporary directory is \<open>/tmp\<close>), and \<open>$PATH\<close> and the file system are
  as given.\<close>

definition ssh_world :: "string \<Rightarrow> filesystem \<Rightarrow> world" where
  "ssh_world path files =
     \<lparr>running = [''ssh'' \<mapsto> ''/tmp/a''], env = [''PATH'' \<mapsto> path], fs = files\<rparr>"

definition ssh_files :: filesystem where
  "ssh_files = [''/tmp'' \<mapsto> Dir, ''/tmp/a'' \<mapsto> Dir, ''/tmp/a/ssh'' \<mapsto> File ''#!/bin/bash'']"

text \<open>A directory beside the temporary directory, with a file in it.\<close>

definition tmpx_files :: filesystem where
  "tmpx_files = [''/tmp'' \<mapsto> Dir, ''/tmpx'' \<mapsto> Dir, ''/tmpx/data'' \<mapsto> File ''precious'']"

text \<open>A state in which nothing is registered and \<open>/tmp\<close> is an empty directory.\<close>

definition fresh_world :: world where
  "fresh_world = \<lparr>running = Map.empty, env = [''PATH'' \<mapsto> ''/usr/bin''], fs = [''/tmp'' \<mapsto> Dir]\<rparr>"

text \<open>A host whose disk is full: creating a directory fails with \<open>ENOSPC\<close>.\<close>

definition full_disk_host :: host where
  "full_disk_host = (calm_host [[1, 2, 3, 4, 5, 6, 7, 8]])\<lparr>mkdir_fault := Some ENOSPC\<rparr>"

section \<open>Lemmas about the library functions\<close>

lemma strings_Index_prefix: "strings_Index (sub @ rest) sub = Some 0"
proof (cases "sub @ rest")
  case Nil
  then show ?thesis by simp
next
  case (Cons a list)
  have "prefix sub (sub @ rest)" by simp
  with Cons show ?thesis by simp
qed


lemma prefix_imp_sublist_butlast:
  assumes pf: "prefix sub (pre @ sub @ rest)" and ne: "pre \<noteq> []"
  shows "sublist sub (pre @ butlast sub)"
proof (cases "sub = []")
  case True then show ?thesis by simp
next
  case False
  have len: "length sub \<le> length (pre @ butlast sub)" using ne False
    by (cases pre) auto
  from pf obtain zs where zs: "pre @ sub @ rest = sub @ zs" by (auto elim: prefixE)
  have split: "pre @ sub @ rest = (pre @ butlast sub) @ (last sub # rest)"
    using False by simp
  have "sub = take (length sub) (sub @ zs)" by simp
  also have "\<dots> = take (length sub) ((pre @ butlast sub) @ (last sub # rest))"
    using zs split by simp
  also have "\<dots> = take (length sub) (pre @ butlast sub)"
    using len by (simp only: take_append) simp
  finally have "sub = take (length sub) (pre @ butlast sub)" .
  then have "prefix sub (pre @ butlast sub)"
    using take_is_prefix[of "length sub" "pre @ butlast sub"] by simp
  then show ?thesis by (rule prefix_imp_sublist)
qed

lemma strings_Index_first:
  "\<not> sublist sub (pre @ butlast sub) \<Longrightarrow> strings_Index (pre @ sub @ rest) sub = Some (length pre)"
proof (induction pre)
  case Nil
  show ?case by (simp add: strings_Index_prefix)
next
  case (Cons a pre)
  have np: "\<not> prefix sub ((a # pre) @ sub @ rest)"
    using Cons.prems prefix_imp_sublist_butlast[of sub "a # pre" rest] by blast
  have "\<not> sublist sub (pre @ butlast sub)"
    using Cons.prems by (simp add: sublist_Cons_right)
  from Cons.IH[OF this] np show ?case by simp
qed


lemma Remove_body_not_temporary:
  "\<not> strings_HasPrefix d (os_TempDir w) \<Longrightarrow> Remove_body h d w = (Err (NotTemporary d), w)"
  by (simp add: Remove_body_def)

lemma Remove_body_not_found:
  "strings_HasPrefix d (os_TempDir w) \<Longrightarrow> strings_Index (os_Getenv w ''PATH'') d = None \<Longrightarrow>
   Remove_body h d w = (Err (NotInPath d), w)"
  by (simp add: Remove_body_def)

lemma Remove_body_panic:
  "strings_HasPrefix d (os_TempDir w) \<Longrightarrow> strings_Index (os_Getenv w ''PATH'') d = Some i \<Longrightarrow>
   length (os_Getenv w ''PATH'') < i + length d + 1 \<Longrightarrow>
   Remove_body h d w = (Panic, w)"
  by (simp add: Remove_body_def)

lemma Remove_body_setenv_fails:
  "strings_HasPrefix d (os_TempDir w) \<Longrightarrow> strings_Index (os_Getenv w ''PATH'') d = Some i \<Longrightarrow>
   \<not> length (os_Getenv w ''PATH'') < i + length d + 1 \<Longrightarrow>
   os_Setenv ''PATH'' (take i (os_Getenv w ''PATH'') @ drop (i + length d + 1) (os_Getenv w ''PATH'')) w = Inl e \<Longrightarrow>
   Remove_body h d w = (Err e, w)"
  by (simp add: Remove_body_def Let_def)

lemma Remove_body_removes:
  "strings_HasPrefix d (os_TempDir w) \<Longrightarrow> strings_Index (os_Getenv w ''PATH'') d = Some i \<Longrightarrow>
   \<not> length (os_Getenv w ''PATH'') < i + length d + 1 \<Longrightarrow>
   os_Setenv ''PATH'' (take i (os_Getenv w ''PATH'') @ drop (i + length d + 1) (os_Getenv w ''PATH'')) w = Inr w1 \<Longrightarrow>
   Remove_body h d w =
     (case fst (os_RemoveAll h (fs w1) d) of None \<Rightarrow> Ok | Some e \<Rightarrow> Err e,
      w1\<lparr>fs := snd (os_RemoveAll h (fs w1) d)\<rparr>)"
  by (simp add: Remove_body_def Let_def split: prod.split option.split)

lemma Remove_body_cases:
  obtains
    (not_temporary) "\<not> strings_HasPrefix d (os_TempDir w)"
      "Remove_body h d w = (Err (NotTemporary d), w)"
  | (not_found) "strings_HasPrefix d (os_TempDir w)"
      "strings_Index (os_Getenv w ''PATH'') d = None"
      "Remove_body h d w = (Err (NotInPath d), w)"
  | (panic) i where "strings_HasPrefix d (os_TempDir w)"
      "strings_Index (os_Getenv w ''PATH'') d = Some i"
      "length (os_Getenv w ''PATH'') < i + length d + 1"
      "Remove_body h d w = (Panic, w)"
  | (setenv_fails) i e where "strings_HasPrefix d (os_TempDir w)"
      "strings_Index (os_Getenv w ''PATH'') d = Some i"
      "i + length d + 1 \<le> length (os_Getenv w ''PATH'')"
      "os_Setenv ''PATH'' (take i (os_Getenv w ''PATH'') @ drop (i + length d + 1) (os_Getenv w ''PATH'')) w = Inl e"
      "Remove_body h d w = (Err e, w)"
  | (removes) i w1 where "strings_HasPrefix d (os_TempDir w)"
      "strings_Index (os_Getenv w ''PATH'') d = Some i"
      "i + length d + 1 \<le> length (os_Getenv w ''PATH'')"
      "os_Setenv ''PATH'' (take i (os_Getenv w ''PATH'') @ drop (i + length d + 1) (os_Getenv w ''PATH'')) w = Inr w1"
      "Remove_body h d w =
         (case fst (os_RemoveAll h (fs w1) d) of None \<Rightarrow> Ok | Some e \<Rightarrow> Err e,
          w1\<lparr>fs := snd (os_RemoveAll h (fs w1) d)\<rparr>)"
proof (cases "strings_HasPrefix d (os_TempDir w)")
  case False
  then show ?thesis using not_temporary Remove_body_not_temporary by blast
next
  case pre: True
  show ?thesis
  proof (cases "strings_Index (os_Getenv w ''PATH'') d")
    case None
    then show ?thesis using not_found pre Remove_body_not_found by blast
  next
    case (Some i)
    show ?thesis
    proof (cases "length (os_Getenv w ''PATH'') < i + length d + 1")
      case True
      then show ?thesis using panic pre Some Remove_body_panic by blast
    next
      case False
      then have le: "i + length d + 1 \<le> length (os_Getenv w ''PATH'')" by simp
      show ?thesis
      proof (cases "os_Setenv ''PATH'' (take i (os_Getenv w ''PATH'') @ drop (i + length d + 1) (os_Getenv w ''PATH'')) w")
        case (Inl e)
        then show ?thesis using setenv_fails[OF pre Some le Inl] Remove_body_setenv_fails[OF pre Some False Inl] by blast
      next
        case (Inr w1)
        then show ?thesis using removes[OF pre Some le Inr] Remove_body_removes[OF pre Some False Inr] by blast
      qed
    qed
  qed
qed

lemma os_Setenv_running: "os_Setenv k v w = Inr w1 \<Longrightarrow> running w1 = running w"
  by (auto simp: os_Setenv_def split: if_splits)

lemma Remove_body_running: "running (snd (Remove_body h d w)) = running w"
  by (cases h d w rule: Remove_body_cases) (auto dest: os_Setenv_running)

lemma fold_key_fixed:
  assumes "\<forall>m. running w m = Some d \<longrightarrow> m = n"
  shows "fold (\<lambda>key k. if running w key = Some d then key else k) order n = n"
  using assms by (induction order) auto

lemma fold_key_found:
  assumes uniq: "\<forall>m. running w m = Some d \<longrightarrow> m = n"
    and ex: "running w n = Some d" and "n \<in> set order"
  shows "fold (\<lambda>key k. if running w key = Some d then key else k) order k0 = n"
  using assms(3)
proof (induction order arbitrary: k0)
  case Nil
  then show ?case by simp
next
  case (Cons x xs)
  show ?case
  proof (cases "running w x = Some d")
    case True
    with uniq have "x = n" by blast
    with True show ?thesis by (simp add: fold_key_fixed[OF uniq])
  next
    case False
    with Cons.prems ex have "n \<in> set xs" by auto
    with False show ?thesis by (simp add: Cons.IH)
  qed
qed

lemma Remove_deferred_unique:
  assumes "\<forall>m. running w m = Some d \<longrightarrow> m = n" "running w n = Some d" "n \<in> set order"
  shows "running (Remove_deferred order d w) = (running w)(n := None)"
  by (simp add: Remove_deferred_def fold_key_found[OF assms])

lemma Remove_deferred_other:
  "env (Remove_deferred order d w) = env w" "fs (Remove_deferred order d w) = fs w"
  by (simp_all add: Remove_deferred_def Let_def)

lemma Remove_snd: "snd (Remove h d w) = Remove_deferred (range_order h) d (snd (Remove_body h d w))"
  by (simp add: Remove_def split: prod.split)

lemma Remove_fst: "fst (Remove h d w) = fst (Remove_body h d w)"
  by (simp add: Remove_def split: prod.split)

lemma Remove_registry:
  assumes "set (range_order h) = dom (running w)"
    and "running w n = Some directory"
    and "\<forall>m. running w m = Some directory \<longrightarrow> m = n"
  shows "running (snd (Remove h directory w)) = (running w)(n := None)"
proof -
  let ?w1 = "snd (Remove_body h directory w)"
  have rw: "running ?w1 = running w" by (rule Remove_body_running)
  have mem: "n \<in> set (range_order h)" using assms(1,2) by auto
  have u: "\<forall>m. running ?w1 m = Some directory \<longrightarrow> m = n"
    unfolding rw by (rule assms(3))
  have e: "running ?w1 n = Some directory"
    unfolding rw by (rule assms(2))
  have "running (Remove_deferred (range_order h) directory ?w1) = (running ?w1)(n := None)"
    by (rule Remove_deferred_unique[OF u e mem])
  then show ?thesis unfolding rw by (simp only: Remove_snd)
qed

section \<open>Properties of Remove\<close>

lemmas ex_defs = calm_host_def ssh_world_def ssh_files_def tmpx_files_def

lemmas rm_defs = Remove_def Remove_body_def Remove_deferred_def strings_HasPrefix_def
  os_TempDir_def os_Getenv_def os_Setenv_def os_RemoveAll_def beneath_def Let_def


subsection \<open>The edit of the search path\<close>


text \<open>
  Where \<open>directory\<close> is the last segment and nothing follows it, the slice expression of
  line 197 is out of range: the call panics and never succeeds.
\<close>

lemma Remove_panics_at_end:
  assumes "strings_HasPrefix directory (os_TempDir w)"
    and "os_Getenv w ''PATH'' = pre @ directory"
    and "\<not> sublist directory (pre @ butlast directory)"
  shows "fst (Remove h directory w) = Panic"
proof -
  have idx: "strings_Index (os_Getenv w ''PATH'') directory = Some (length pre)"
    using strings_Index_first[OF assms(3), of "[]"] assms(2) by simp
  from Remove_body_panic[OF assms(1) idx, of h] assms(2) show ?thesis
    by (simp add: Remove_fst)
qed

lemma Remove_last_segment_panics:
  "fst (Remove (calm_host []) ''/tmp/a'' (ssh_world ''/bin:/tmp/a'' ssh_files)) = Panic"
  by (simp add: ex_defs rm_defs)



subsection \<open>A directory that is not in the search path\<close>




subsection \<open>A directory outside the temporary directory\<close>

text \<open>
  What the guard of line 189 does: a directory that does not start with the string
  \<open>os.TempDir()\<close> is refused, and nothing is deleted or changed. \<open>/etc\<close> is such a
  directory.
\<close>

lemma Remove_not_temporary:
  assumes "\<not> strings_HasPrefix directory (os_TempDir w)"
  shows "fst (Remove h directory w) = Err (NotTemporary directory)
       \<and> fs (snd (Remove h directory w)) = fs w
       \<and> env (snd (Remove h directory w)) = env w"
  using Remove_body_not_temporary[OF assms, of h]
  by (simp add: Remove_fst Remove_snd Remove_deferred_other)

lemma Remove_etc:
  "fst (Remove h ''/etc'' (ssh_world path files)) = Err (NotTemporary ''/etc'')
   \<and> fs (snd (Remove h ''/etc'' (ssh_world path files))) = files
   \<and> env (snd (Remove h ''/etc'' (ssh_world path files))) = [''PATH'' \<mapsto> path]"
proof -
  have "\<not> strings_HasPrefix ''/etc'' (os_TempDir (ssh_world path files))"
    by (simp add: ssh_world_def strings_HasPrefix_def os_TempDir_def os_Getenv_def)
  from Remove_not_temporary[OF this, of h] show ?thesis by (simp add: ssh_world_def)
qed

text \<open>
  Claim C5 says that \<open>Remove\<close> refuses every directory that is not beneath the temporary
  directory, and deletes nothing. The guard compares strings, not path elements: with
  the temporary directory \<open>/tmp\<close>, the directory \<open>/tmpx\<close> is not beneath \<open>/tmp\<close> and
  passes the guard. With \<open>/tmpx\<close> in \<open>$PATH\<close>, \<open>Remove("/tmpx")\<close> returns \<open>nil\<close>, takes it
  out of \<open>$PATH\<close> and deletes \<open>/tmpx\<close> with the file in it.
\<close>

theorem Remove_outside_tmp_removes:
  "\<not> beneath (os_TempDir (ssh_world ''/tmpx:/usr/bin'' tmpx_files)) ''/tmpx''
   \<and> fst (Remove (calm_host []) ''/tmpx'' (ssh_world ''/tmpx:/usr/bin'' tmpx_files)) = Ok
   \<and> os_Getenv (snd (Remove (calm_host []) ''/tmpx''
                        (ssh_world ''/tmpx:/usr/bin'' tmpx_files))) ''PATH'' = ''/usr/bin''
   \<and> fs (ssh_world ''/tmpx:/usr/bin'' tmpx_files) ''/tmpx/data'' = Some (File ''precious'')
   \<and> fs (snd (Remove (calm_host []) ''/tmpx''
                 (ssh_world ''/tmpx:/usr/bin'' tmpx_files))) ''/tmpx/data'' = None
   \<and> fs (snd (Remove (calm_host []) ''/tmpx''
                 (ssh_world ''/tmpx:/usr/bin'' tmpx_files))) ''/tmpx'' = None"
  by (simp add: ex_defs rm_defs)

subsection \<open>The registry entry\<close>

text \<open>
  Claim C6: every call of \<open>Remove(directory)\<close>, whatever it returns, removes from
  \<open>running\<close> the entry whose value is \<open>directory\<close>; the entry is found by its value.
  The theorem holds for every host and state, so for every way out of the body: the
  two errors of the guards, a failure of \<open>os.Setenv\<close> or of \<open>os.RemoveAll\<close>, success, and
  the panic. Its hypotheses say that the \<open>range\<close> visits the keys of \<open>running\<close> and that
  \<open>n\<close> is the one name registered with \<open>directory\<close>.
\<close>

theorem Remove_unregisters:
  assumes "set (range_order h) = dom (running w)"
    and "running w n = Some directory"
    and "\<forall>m. running w m = Some directory \<longrightarrow> m = n"
  shows "running (snd (Remove h directory w)) = (running w)(n := None)"
  using assms by (rule Remove_registry)

theorem Remove_unregisters_witness:
  "running (snd (Remove (calm_host []) ''/tmp/a'' (ssh_world ''/tmp/a:/bin'' ssh_files))) ''ssh''
     = None
   \<and> running (snd (Remove (calm_host []) ''/tmp/a'' (ssh_world ''/usr/bin'' ssh_files))) ''ssh''
     = None"
proof -
  have d: "set (range_order (calm_host [])) = dom (running (ssh_world p ssh_files))" for p
    by (simp add: calm_host_def ssh_world_def)
  have r: "running (ssh_world p ssh_files) ''ssh'' = Some ''/tmp/a''" for p
    by (simp add: ssh_world_def)
  have u: "\<forall>m. running (ssh_world p ssh_files) m = Some ''/tmp/a'' \<longrightarrow> m = ''ssh''" for p
    by (simp add: ssh_world_def)
  from Remove_unregisters[OF d r u] show ?thesis by simp
qed

subsection \<open>A failed update of the search path\<close>

text \<open>
  Claim C10: when \<open>Remove(directory)\<close> has found \<open>directory\<close> in \<open>$PATH\<close> and \<open>os.Setenv\<close>
  refuses the edited value, \<open>Remove\<close> returns that error, the file system and the
  environment are as before, and the registry entry of \<open>directory\<close> is removed all the
  same. (On Unix \<open>os.Setenv\<close> refuses a value exactly when it holds a NUL byte.)
\<close>

theorem Remove_setenv_failure:
  assumes "strings_HasPrefix directory (os_TempDir w)"
    and "strings_Index (os_Getenv w ''PATH'') directory = Some i"
    and "i + length directory + 1 \<le> length (os_Getenv w ''PATH'')"
    and "os_Setenv ''PATH'' (take i (os_Getenv w ''PATH'')
                            @ drop (i + length directory + 1) (os_Getenv w ''PATH'')) w = Inl e"
    and "set (range_order h) = dom (running w)"
    and "running w n = Some directory"
    and "\<forall>m. running w m = Some directory \<longrightarrow> m = n"
  shows "fst (Remove h directory w) = Err e
       \<and> fs (snd (Remove h directory w)) = fs w
       \<and> env (snd (Remove h directory w)) = env w
       \<and> running (snd (Remove h directory w)) = (running w)(n := None)"
proof -
  have "\<not> length (os_Getenv w ''PATH'') < i + length directory + 1" using assms(3) by simp
  from Remove_body_setenv_fails[OF assms(1,2) this assms(4), of h]
  have b: "Remove_body h directory w = (Err e, w)" .
  have r: "running (snd (Remove h directory w)) = (running w)(n := None)"
    by (rule Remove_registry[OF assms(5,6,7)])
  from b have "fst (Remove h directory w) = Err e"
    and "fs (snd (Remove h directory w)) = fs w"
    and "env (snd (Remove h directory w)) = env w"
    by (simp_all add: Remove_fst Remove_snd Remove_deferred_other)
  with r show ?thesis by blast
qed

theorem Remove_setenv_failure_witness:
  "fst (Remove (calm_host []) ''/tmp/a'' (ssh_world (''/tmp/a:/bin'' @ [CHR 0x00]) ssh_files))
     = Err (SyscallError ''setenv'' EINVAL)
   \<and> fs (snd (Remove (calm_host []) ''/tmp/a''
                 (ssh_world (''/tmp/a:/bin'' @ [CHR 0x00]) ssh_files))) = ssh_files
   \<and> running (snd (Remove (calm_host []) ''/tmp/a''
                      (ssh_world (''/tmp/a:/bin'' @ [CHR 0x00]) ssh_files))) ''ssh'' = None"
proof -
  let ?w = "ssh_world (''/tmp/a:/bin'' @ [CHR 0x00]) ssh_files"
  have t: "strings_HasPrefix ''/tmp/a'' (os_TempDir ?w)"
    by (simp add: ssh_world_def strings_HasPrefix_def os_TempDir_def os_Getenv_def)
  have i: "strings_Index (os_Getenv ?w ''PATH'') ''/tmp/a'' = Some 0"
    by (simp add: ssh_world_def os_Getenv_def)
  have l: "0 + length ''/tmp/a'' + 1 \<le> length (os_Getenv ?w ''PATH'')"
    by (simp add: ssh_world_def os_Getenv_def)
  have s: "os_Setenv ''PATH'' (take 0 (os_Getenv ?w ''PATH'')
                              @ drop (0 + length ''/tmp/a'' + 1) (os_Getenv ?w ''PATH'')) ?w
           = Inl (SyscallError ''setenv'' EINVAL)"
    by (simp add: ssh_world_def os_Getenv_def os_Setenv_def)
  have d: "set (range_order (calm_host [])) = dom (running ?w)"
    by (simp add: calm_host_def ssh_world_def)
  have r: "running ?w ''ssh'' = Some ''/tmp/a''"
    by (simp add: ssh_world_def)
  have u: "\<forall>m. running ?w m = Some ''/tmp/a'' \<longrightarrow> m = ''ssh''"
    by (simp add: ssh_world_def)
  from Remove_setenv_failure[OF t i l s d r u] show ?thesis by (simp add: ssh_world_def)
qed

end
